theory Spec2Isabelle
  imports Complex_Main "HOL-Library.Sublist" "HOL-Library.AList"
begin

section \<open>Python values used by agent.py\<close>

text \<open>
  Strings are lists of bytes; the case conversions below are those of Python's
  \<^verbatim>\<open>str.lower\<close>, \<^verbatim>\<open>str.upper\<close> and \<^verbatim>\<open>str.title\<close> on ASCII text, and leave every
  other byte as it is.
\<close>

definition ascii_uppercase :: string where
  "ascii_uppercase = ''ABCDEFGHIJKLMNOPQRSTUVWXYZ''"

definition ascii_lowercase :: string where
  "ascii_lowercase = ''abcdefghijklmnopqrstuvwxyz''"

definition is_upper :: "char \<Rightarrow> bool" where
  "is_upper c = (c \<in> set ascii_uppercase)"

definition is_lower :: "char \<Rightarrow> bool" where
  "is_lower c = (c \<in> set ascii_lowercase)"

definition lower_char :: "char \<Rightarrow> char" where
  "lower_char c =
     (case map_of (zip ascii_uppercase ascii_lowercase) c of Some d \<Rightarrow> d | None \<Rightarrow> c)"

definition upper_char :: "char \<Rightarrow> char" where
  "upper_char c =
     (case map_of (zip ascii_lowercase ascii_uppercase) c of Some d \<Rightarrow> d | None \<Rightarrow> c)"

definition str_lower :: "string \<Rightarrow> string" where
  "str_lower s = map lower_char s"

definition str_upper :: "string \<Rightarrow> string" where
  "str_upper s = map upper_char s"

text \<open>
  \<^verbatim>\<open>str.title\<close>: a cased character that follows an uncased one is made upper case,
  a cased character that follows a cased one is made lower case.
\<close>

fun title_from :: "bool \<Rightarrow> string \<Rightarrow> string" where
  "title_from prev [] = []"
| "title_from prev (c # cs) =
     (if is_lower c then (if prev then c else upper_char c) # title_from True cs
      else if is_upper c then (if prev then lower_char c else c) # title_from True cs
      else c # title_from False cs)"

definition str_title :: "string \<Rightarrow> string" where
  "str_title s = title_from False s"

text \<open>\<^verbatim>\<open>str(n)\<close> of an integer, as the f-strings of the source format it.\<close>

definition digit_char :: "nat \<Rightarrow> char" where
  "digit_char n = ''0123456789'' ! n"

fun str_nat :: "nat \<Rightarrow> string" where
  "str_nat n =
     (if n < 10 then [digit_char n] else str_nat (n div 10) @ [digit_char (n mod 10)])"

declare str_nat.simps [simp del]

definition str_int :: "int \<Rightarrow> string" where
  "str_int i = (if i < 0 then CHR ''-'' # str_nat (nat (- i)) else str_nat (nat i))"

text \<open>
  The values a returned \<^verbatim>\<open>dict[str, Any]\<close> holds. A dict literal is an association
  list in the order the source writes its keys.
\<close>

datatype pyval = PStr string | PInt int | PBool bool

type_synonym pydict = "(string \<times> pyval) list"

text \<open>The exceptions the modelled code can raise.\<close>

datatype py_error = IndexError | OverflowError | ValueError

text \<open>
  \<^verbatim>\<open>sub in s\<close> on strings; \<^verbatim>\<open>s.split(sep)\<close> for a non-empty separator (the
  source splits on a literal only); \<^verbatim>\<open>s.split()\<close>, which splits on runs of white
  space and yields no empty word.
\<close>

fun str_contains :: "string \<Rightarrow> string \<Rightarrow> bool" where
  "str_contains sub [] = (sub = [])"
| "str_contains sub (c # cs) = (prefix sub (c # cs) \<or> str_contains sub cs)"

function str_split_from :: "string \<Rightarrow> string \<Rightarrow> string \<Rightarrow> string list" where
  "str_split_from sep cur [] = [cur]"
| "str_split_from sep cur (c # cs) =
     (if sep \<noteq> [] \<and> prefix sep (c # cs)
      then cur # str_split_from sep [] (drop (length sep) (c # cs))
      else str_split_from sep (cur @ [c]) cs)"
  by pat_completeness auto
termination
  by (relation "measure (\<lambda>(sep, cur, s). length s)") auto

definition str_split :: "string \<Rightarrow> string \<Rightarrow> string list" where
  "str_split sep s = str_split_from sep [] s"

definition is_space :: "char \<Rightarrow> bool" where
  "is_space c = (c \<in> set [CHR 0x09, CHR 0x0A, CHR 0x0B, CHR 0x0C, CHR 0x0D,
                             CHR 0x1C, CHR 0x1D, CHR 0x1E, CHR 0x1F, CHR 0x20])"

fun words_from :: "string \<Rightarrow> string \<Rightarrow> string list" where
  "words_from cur [] = (if cur = [] then [] else [cur])"
| "words_from cur (c # cs) =
     (if is_space c then (if cur = [] then words_from [] cs else cur # words_from [] cs)
      else words_from (cur @ [c]) cs)"

definition str_split_ws :: "string \<Rightarrow> string list" where
  "str_split_ws s = words_from [] s"

section \<open>The random module\<close>

text \<open>
  The generator is the sequence of raw draws still to come. \<^verbatim>\<open>random.randint(a, b)\<close>
  consumes one draw and yields a value of \<open>a..b\<close>, and every value of \<open>a..b\<close> is
  the outcome of some draw; \<^verbatim>\<open>random.choice(xs)\<close> consumes one draw and yields
  an element of the non-empty list \<open>xs\<close>.
\<close>

type_synonym rng = "nat \<Rightarrow> nat"

definition advance :: "rng \<Rightarrow> rng" where
  "advance g = (\<lambda>n. g (Suc n))"

definition randint :: "int \<Rightarrow> int \<Rightarrow> rng \<Rightarrow> int \<times> rng" where
  "randint a b g = (a + int (g 0 mod nat (b - a + 1)), advance g)"

definition choice :: "'a list \<Rightarrow> rng \<Rightarrow> 'a \<times> rng" where
  "choice xs g = (xs ! (g 0 mod length xs), advance g)"

section \<open>FlightBookingAgent.book\_flight\<close>

subsection \<open>datetime and timedelta\<close>

text \<open>
  A \<^verbatim>\<open>datetime\<close> object holds the fields below. Python's constructor accepts them
  when \<open>valid_datetime\<close> holds, with years 1 to 9999.
\<close>

record datetime =
  year :: nat
  month :: nat
  day :: nat
  hour :: nat
  minute :: nat
  second :: nat
  microsecond :: nat

type_synonym ymd = "nat \<times> nat \<times> nat"

definition ymd_of :: "datetime \<Rightarrow> ymd" where
  "ymd_of t = (year t, month t, day t)"

definition is_leap :: "nat \<Rightarrow> bool" where
  "is_leap y = (y mod 4 = 0 \<and> (y mod 100 \<noteq> 0 \<or> y mod 400 = 0))"

definition days_in_month :: "nat \<Rightarrow> nat \<Rightarrow> nat" where
  "days_in_month y m =
     (if m = 2 then (if is_leap y then 29 else 28)
      else if m = 4 \<or> m = 6 \<or> m = 9 \<or> m = 11 then 30 else 31)"

definition valid_date :: "ymd \<Rightarrow> bool" where
  "valid_date v =
     (case v of (y, m, d) \<Rightarrow>
        1 \<le> y \<and> y \<le> 9999 \<and> 1 \<le> m \<and> m \<le> 12 \<and> 1 \<le> d \<and> d \<le> days_in_month y m)"

definition valid_datetime :: "datetime \<Rightarrow> bool" where
  "valid_datetime t =
     (valid_date (ymd_of t) \<and> hour t < 24 \<and> minute t < 60 \<and> second t < 60
      \<and> microsecond t < 1000000)"

text \<open>
  \<^verbatim>\<open>t + timedelta(days=n, hours=k)\<close> for the non-negative \<open>n\<close> and \<open>k\<close> the source
  uses. The date moves forward one calendar day at a time (Python reaches the same date
  through the day's ordinal), and a result after 9999-12-31 raises
  \<^verbatim>\<open>OverflowError\<close>.
\<close>

definition next_date :: "ymd \<Rightarrow> ymd" where
  "next_date v =
     (case v of (y, m, d) \<Rightarrow>
        if d < days_in_month y m then (y, m, d + 1)
        else if m < 12 then (y, m + 1, 1)
        else (y + 1, 1, 1))"

definition add_days :: "nat \<Rightarrow> ymd \<Rightarrow> ymd" where
  "add_days n v = (next_date ^^ n) v"

definition plus_timedelta :: "datetime \<Rightarrow> nat \<Rightarrow> nat \<Rightarrow> py_error + datetime" where
  "plus_timedelta t days hours =
     (let h = hour t + hours in
      case add_days (days + h div 24) (ymd_of t) of (y, m, d) \<Rightarrow>
        if 9999 < y then Inl OverflowError
        else Inr (t\<lparr>year := y, month := m, day := d, hour := h mod 24\<rparr>))"

subsection \<open>str.replace and datetime.strptime\<close>

text \<open>\<^verbatim>\<open>s.replace(old, "")\<close> for a non-empty \<open>old\<close>: occurrences are removed from left to right.\<close>

function str_remove :: "string \<Rightarrow> string \<Rightarrow> string" where
  "str_remove old [] = []"
| "str_remove old (c # cs) =
     (if old \<noteq> [] \<and> prefix old (c # cs)
      then str_remove old (drop (length old) (c # cs))
      else c # str_remove old cs)"
  by pat_completeness auto
termination
  by (relation "measure (\<lambda>(old, s). length s)") auto

text \<open>
  \<^verbatim>\<open>datetime.strptime(data_string, format)\<close> as CPython's \<^verbatim>\<open>_strptime\<close> computes it in
  the C locale. The format is turned into a regular expression: a directive becomes a
  group, a run of white space becomes \<^verbatim>\<open>\s+\<close>, any other character stands for
  itself, and the match ignores case. Each function below lists the ways its part of
  the expression matches a prefix of the text, in the order in which the backtracking
  matcher tries them, with the rest of the text:
  \<^item> \<^verbatim>\<open>%d\<close> is \<^verbatim>\<open>3[0-1]|[1-2]\d|0[1-9]|[1-9]| [1-9]\<close>,
  \<^item> \<^verbatim>\<open>%m\<close> is \<^verbatim>\<open>1[0-2]|0[1-9]|[1-9]\<close>,
  \<^item> \<^verbatim>\<open>%Y\<close> is \<^verbatim>\<open>\d\d\d\d\<close>,
  \<^item> \<^verbatim>\<open>%b\<close> and \<^verbatim>\<open>%B\<close> are the lower-case month names, longest first.

  The first match of the whole expression is taken; text left over after it, a year 0
  and a day the month does not have raise \<^verbatim>\<open>ValueError\<close>, and so does a directive
  other than the five above.
\<close>

definition is_digit :: "char \<Rightarrow> bool" where
  "is_digit c = (c \<in> set ''0123456789'')"

definition digit_val :: "char \<Rightarrow> nat" where
  "digit_val c =
     (case map_of (zip ''0123456789'' [0, 1, 2, 3, 4, 5, 6, 7, 8, 9]) c of
        Some n \<Rightarrow> n | None \<Rightarrow> 0)"

datatype directive = Dir_d | Dir_m | Dir_Y | Dir_b | Dir_B | Dir_space | Dir_lit char | Dir_bad

definition directive_of :: "char \<Rightarrow> directive" where
  "directive_of e =
     (if e = CHR ''d'' then Dir_d else if e = CHR ''m'' then Dir_m
      else if e = CHR ''Y'' then Dir_Y else if e = CHR ''b'' then Dir_b
      else if e = CHR ''B'' then Dir_B else Dir_bad)"

function compile_format :: "string \<Rightarrow> directive list" where
  "compile_format [] = []"
| "compile_format (c # r) =
     (if c = CHR ''%'' then
        (case r of [] \<Rightarrow> [Dir_bad] | e # r' \<Rightarrow> directive_of e # compile_format r')
      else if is_space c then Dir_space # compile_format (dropWhile is_space r)
      else Dir_lit c # compile_format r)"
  by pat_completeness auto
termination
  by (relation "measure length") (auto simp: le_imp_less_Suc length_dropWhile_le)

definition a_month :: "string list" where
  "a_month = [''jan'', ''feb'', ''mar'', ''apr'', ''may'', ''jun'', ''jul'', ''aug'', ''sep'',
     ''oct'', ''nov'', ''dec'']"

definition f_month :: "string list" where
  "f_month = [''january'', ''february'', ''march'', ''april'', ''may'', ''june'', ''july'',
     ''august'', ''september'', ''october'', ''november'', ''december'']"

definition re_d :: "string \<Rightarrow> (nat \<times> string) list" where
  "re_d s =
     (case s of
        a # b # r \<Rightarrow>
          (if a = CHR ''3'' \<and> b \<in> set ''01'' then [(30 + digit_val b, r)] else [])
          @ (if a \<in> set ''12'' \<and> is_digit b then [(10 * digit_val a + digit_val b, r)] else [])
          @ (if a = CHR ''0'' \<and> b \<in> set ''123456789'' then [(digit_val b, r)] else [])
          @ (if a \<in> set ''123456789'' then [(digit_val a, b # r)] else [])
          @ (if a = CHR '' '' \<and> b \<in> set ''123456789'' then [(digit_val b, r)] else [])
      | [a] \<Rightarrow> (if a \<in> set ''123456789'' then [(digit_val a, [])] else [])
      | [] \<Rightarrow> [])"

definition re_m :: "string \<Rightarrow> (nat \<times> string) list" where
  "re_m s =
     (case s of
        a # b # r \<Rightarrow>
          (if a = CHR ''1'' \<and> b \<in> set ''012'' then [(10 + digit_val b, r)] else [])
          @ (if a = CHR ''0'' \<and> b \<in> set ''123456789'' then [(digit_val b, r)] else [])
          @ (if a \<in> set ''123456789'' then [(digit_val a, b # r)] else [])
      | [a] \<Rightarrow> (if a \<in> set ''123456789'' then [(digit_val a, [])] else [])
      | [] \<Rightarrow> [])"

definition re_Y :: "string \<Rightarrow> (nat \<times> string) list" where
  "re_Y s =
     (case s of
        a # b # c # d # r \<Rightarrow>
          (if is_digit a \<and> is_digit b \<and> is_digit c \<and> is_digit d
           then [(1000 * digit_val a + 100 * digit_val b + 10 * digit_val c + digit_val d, r)]
           else [])
      | _ \<Rightarrow> [])"

text \<open>
  The names of a month group with their month numbers, sorted as
  \<^verbatim>\<open>sorted(names, key=len, reverse=True)\<close> sorts them.
\<close>

definition by_length_desc :: "string list \<Rightarrow> (nat \<times> string) list" where
  "by_length_desc names =
     rev (sort_key (\<lambda>(i, nm). length nm) (rev (zip [1 ..< Suc (length names)] names)))"

definition re_names :: "(nat \<times> string) list \<Rightarrow> string \<Rightarrow> (nat \<times> string) list" where
  "re_names names s =
     concat (map (\<lambda>(i, nm). if prefix nm (str_lower s) then [(i, drop (length nm) s)] else [])
                 names)"

definition re_space :: "string \<Rightarrow> string list" where
  "re_space s = map (\<lambda>k. drop k s) (rev [1 ..< Suc (length (takeWhile is_space s))])"

fun re_directive :: "directive \<Rightarrow> ymd \<Rightarrow> string \<Rightarrow> (ymd \<times> string) list" where
  "re_directive Dir_d (y, m, d) s = map (\<lambda>(v, r). ((y, m, v), r)) (re_d s)"
| "re_directive Dir_m (y, m, d) s = map (\<lambda>(v, r). ((y, v, d), r)) (re_m s)"
| "re_directive Dir_Y (y, m, d) s = map (\<lambda>(v, r). ((v, m, d), r)) (re_Y s)"
| "re_directive Dir_b (y, m, d) s =
     map (\<lambda>(v, r). ((y, v, d), r)) (re_names (by_length_desc a_month) s)"
| "re_directive Dir_B (y, m, d) s =
     map (\<lambda>(v, r). ((y, v, d), r)) (re_names (by_length_desc f_month) s)"
| "re_directive Dir_space v s = map (\<lambda>r. (v, r)) (re_space s)"
| "re_directive (Dir_lit c) v s =
     (case s of
        [] \<Rightarrow> []
      | a # r \<Rightarrow> if lower_char a = lower_char c then [(v, r)] else [])"
| "re_directive Dir_bad v s = []"

primrec match_directives :: "directive list \<Rightarrow> ymd \<Rightarrow> string \<Rightarrow> (ymd \<times> string) list" where
  "match_directives [] = (\<lambda>v s. [(v, s)])"
| "match_directives (d # ds) =
     (\<lambda>v s. concat (map (\<lambda>(v', r). match_directives ds v' r) (re_directive d v s)))"

definition strptime :: "string \<Rightarrow> string \<Rightarrow> py_error + datetime" where
  "strptime data_string format =
     (case match_directives (compile_format format) (1900, 1, 1) data_string of
        [] \<Rightarrow> Inl ValueError
      | ((y, m, d), rest) # _ \<Rightarrow>
          if rest \<noteq> [] then Inl ValueError
          else if y < 1 \<or> days_in_month y m < d then Inl ValueError
          else Inr \<lparr>year = y, month = m, day = d, hour = 0, minute = 0, second = 0,
                     microsecond = 0\<rparr>)"

subsection \<open>The body of book\_flight\<close>

text \<open>Lines 114-130: the first format that parses wins; \<^verbatim>\<open>ValueError\<close> moves on.\<close>

definition formats :: "string list" where
  "formats = [''%d %b %Y'', ''%b %d %Y'', ''%d %B %Y'', ''%B %d %Y'', ''%Y-%m-%d'',
     ''%m/%d/%Y'', ''%d/%m/%Y'']"

fun try_formats :: "string \<Rightarrow> string list \<Rightarrow> py_error + datetime option" where
  "try_formats date_clean [] = Inr None"
| "try_formats date_clean (fmt # fmts) =
     (case strptime date_clean fmt of
        Inr t \<Rightarrow> Inr (Some t)
      | Inl ValueError \<Rightarrow> try_formats date_clean fmts
      | Inl e \<Rightarrow> Inl e)"

text \<open>Line 111.\<close>

definition date_clean_of :: "string \<Rightarrow> string" where
  "date_clean_of date =
     str_remove ''th'' (str_remove ''rd'' (str_remove ''nd'' (str_remove ''st'' (str_lower date))))"

text \<open>Lines 134 and 138: \<^verbatim>\<open>today + timedelta(days=random.randint(1, 30))\<close>.\<close>

definition fallback_date :: "datetime \<Rightarrow> rng \<Rightarrow> py_error + datetime \<times> rng" where
  "fallback_date today g =
     (let (n, g1) = randint 1 30 g in
      case plus_timedelta today (nat n) 0 of
        Inl e \<Rightarrow> Inl e
      | Inr t \<Rightarrow> Inr (t, g1))"

text \<open>
  Lines 109-138. An exception inside the \<^verbatim>\<open>try\<close> is caught by line 136 and line 138
  draws again; the draw of line 134 is then already consumed. An exception raised by
  line 138 itself leaves the function.
\<close>

definition parse_specific_date ::
  "datetime \<Rightarrow> rng \<Rightarrow> string \<Rightarrow> py_error + datetime \<times> rng" where
  "parse_specific_date today g date =
     (case try_formats (date_clean_of date) formats of
        Inl e \<Rightarrow> fallback_date today g
      | Inr (Some t) \<Rightarrow> Inr (t, g)
      | Inr None \<Rightarrow>
          (case fallback_date today g of
             Inr r \<Rightarrow> Inr r
           | Inl e \<Rightarrow> fallback_date today (advance g)))"

text \<open>Lines 101-138.\<close>

definition departure_date_of ::
  "datetime \<Rightarrow> rng \<Rightarrow> string \<Rightarrow> py_error + datetime \<times> rng" where
  "departure_date_of today g date =
     (if str_contains ''tomorrow'' (str_lower date) then
        (case plus_timedelta today 1 0 of Inl e \<Rightarrow> Inl e | Inr t \<Rightarrow> Inr (t, g))
      else if str_contains ''today'' (str_lower date) then Inr (today, g)
      else if str_contains ''next week'' (str_lower date) then
        (case plus_timedelta today 7 0 of Inl e \<Rightarrow> Inl e | Inr t \<Rightarrow> Inr (t, g))
      else parse_specific_date today g date)"

text \<open>
  \<^verbatim>\<open>t.strftime('%B %d, %Y at %I:%M %p')\<close> in the C locale. The year is written
  without padding, as glibc writes it; the two agree for years from 1000 on.
\<close>

definition pad2 :: "nat \<Rightarrow> string" where
  "pad2 n = (if n < 10 then CHR ''0'' # str_nat n else str_nat n)"

definition strftime_long :: "datetime \<Rightarrow> string" where
  "strftime_long t =
     str_title (f_month ! (month t - 1)) @ '' '' @ pad2 (day t) @ '', '' @ str_nat (year t)
     @ '' at '' @ pad2 (if hour t mod 12 = 0 then 12 else hour t mod 12)
     @ '':'' @ pad2 (minute t) @ '' '' @ (if hour t < 12 then ''AM'' else ''PM'')"

text \<open>
  Lines 99-145: \<open>now\<close> is the value of \<^verbatim>\<open>datetime.now()\<close>. The result is the departure
  time, the arrival time and the generator after the draws.
\<close>

definition flight_times ::
  "datetime \<Rightarrow> rng \<Rightarrow> string \<Rightarrow> py_error + datetime \<times> datetime \<times> rng" where
  "flight_times now g date =
     (let today = now\<lparr>hour := 0, minute := 0, second := 0, microsecond := 0\<rparr> in
      case departure_date_of today g date of
        Inl e \<Rightarrow> Inl e
      | Inr (departure_date, g1) \<Rightarrow>
          (let (departure_hour, g2) = randint 6 22 g1;
               (departure_minute, g3) = choice [0, 15, 30, 45] g2;
               departure_time = departure_date\<lparr>hour := nat departure_hour,
                 minute := departure_minute, second := 0, microsecond := 0\<rparr>;
               (flight_duration, g4) = randint 2 8 g3
           in case plus_timedelta departure_time 0 (nat flight_duration) of
                Inl e \<Rightarrow> Inl e
              | Inr arrival_time \<Rightarrow> Inr (departure_time, arrival_time, g4)))"

text \<open>
  Lines 81-173. The \<^verbatim>\<open>RunContext\<close> argument is not used and the \<^verbatim>\<open>print\<close> calls
  write to the console only. The arrow of the route is the three bytes of U+2192.
\<close>

definition book_flight ::
  "datetime \<Rightarrow> rng \<Rightarrow> string \<Rightarrow> string \<Rightarrow> string \<Rightarrow> py_error + pydict \<times> rng" where
  "book_flight now g source destination date =
     (let (fl, g1) = randint 1000 9999 g;
          flight_number = ''FL'' @ str_int fl
      in case flight_times now g1 date of
           Inl e \<Rightarrow> Inl e
         | Inr (departure_time, arrival_time, g2) \<Rightarrow>
             (let (price, g3) = randint 200 1000 g2;
                  (seat_letter, g4) = choice ''ABCDEF'' g3;
                  (seat_no, g5) = randint 1 30 g4;
                  seat = seat_letter # str_int seat_no
              in Inr ([(''status'', PStr ''confirmed''),
                       (''flight_number'', PStr flight_number),
                       (''route'', PStr (str_upper source @ [CHR 0x20, CHR 0xE2, CHR 0x86,
                          CHR 0x92, CHR 0x20] @ str_upper destination)),
                       (''date'', PStr date),
                       (''departure'', PStr (strftime_long departure_time)),
                       (''arrival'', PStr (strftime_long arrival_time)),
                       (''price'', PStr (CHR ''$'' # str_int price)),
                       (''seat'', PStr seat),
                       (''message'', PStr (''Flight '' @ flight_number @ '' from '' @ source
                          @ '' to '' @ destination @ '' on '' @ date
                          @ '' has been successfully booked!''))],
                      g5)))"

text \<open>Sample inputs for the evaluations below: two clock readings and a generator.\<close>

definition clock_2025 :: datetime where
  "clock_2025 = \<lparr>year = 2025, month = 6, day = 30, hour = 12, minute = 34, second = 56,
     microsecond = 789\<rparr>"

definition clock_last_day :: datetime where
  "clock_last_day = \<lparr>year = 9999, month = 12, day = 31, hour = 12, minute = 34, second = 56,
     microsecond = 789\<rparr>"

definition sample_rng :: rng where
  "sample_rng n = 7 * n + 3"

section \<open>FlightBookingAgent.search\_knowledge\_base\<close>

text \<open>
  Lines 33-78 run on asyncio's event loop: one thread, and a task runs until its next
  \<^verbatim>\<open>await\<close>. The model is the loop of section 5 of the specification:
  \<^item> \<open>ready\<close> is the queue of callbacks \<^verbatim>\<open>call_soon\<close> filled, run in order;
  \<^item> \<open>scheduled\<close> holds the timers of \<^verbatim>\<open>call_later\<close> by the time they are due, a
    timer set earlier before one set later for the same time;
  \<^item> one pass of the loop (\<open>run_once\<close>) moves the clock to the first timer when nothing
    is ready, makes the timers that are due ready, and runs what is ready; what a callback
    makes ready runs in the next pass;
  \<^item> the clock moves only while the loop waits: running a callback takes no time.

  The two tasks are the tool call (\<open>step_main\<close>, lines 70-78 with \<^verbatim>\<open>_perform_search\<close>,
  lines 33-47) and \<^verbatim>\<open>_speak_status_update\<close> (\<open>step_status\<close>, lines 63-68). Their
  program counters say where each is suspended. \<^verbatim>\<open>asyncio.sleep(x)\<close> yields once to the
  loop when \<open>x \<le> 0\<close> and sets a timer otherwise. The search sleeps \<open>d\<close> seconds and
  the status update \<open>t\<close> seconds; the source has \<open>d = 2.0\<close> (line 37) and \<open>t = 2\<close>
  (line 70). \<^verbatim>\<open>generate_reply\<close> belongs to the speech backend: the call is recorded in
  \<open>spoken\<close> with its instructions, and then either raises or returns after \<open>r\<close> seconds
  (\<open>reply\<close>).

  \<^verbatim>\<open>Task.cancel()\<close> (\<open>task_cancel\<close>) cancels the future the task waits for, which wakes
  the task with \<^verbatim>\<open>CancelledError\<close>; a task that is not waiting for a pending future
  gets the error at its next step (\<open>must_cancel\<close>); a finished task is left alone. An
  exception that ends the status task stays in that task.
\<close>

datatype handle = StepMain | StepStatus | TimerMain | TimerStatus | TimerReply

datatype main_state = M_start | M_sleeping | M_woken | M_done

datatype status_state = S_created | S_sleeping | S_woken | S_replying | S_reply_done
  | S_cancelling | S_finished | S_cancelled | S_failed

datatype reply = ReplyAfter rat | ReplyRaises

record loop =
  clock :: rat
  ready :: "handle list"
  scheduled :: "(rat \<times> handle) list"
  main_pc :: main_state
  status_pc :: status_state
  must_cancel :: bool
  spoken :: "string list"
  returned :: "string option"

definition call_soon :: "handle \<Rightarrow> loop \<Rightarrow> loop" where
  "call_soon h st = st\<lparr>ready := ready st @ [h]\<rparr>"

fun insert_timer :: "rat \<times> handle \<Rightarrow> (rat \<times> handle) list \<Rightarrow> (rat \<times> handle) list" where
  "insert_timer x [] = [x]"
| "insert_timer x (y # ys) = (if fst x < fst y then x # y # ys else y # insert_timer x ys)"

definition call_later :: "rat \<Rightarrow> handle \<Rightarrow> loop \<Rightarrow> loop" where
  "call_later delay h st = st\<lparr>scheduled := insert_timer (clock st + delay, h) (scheduled st)\<rparr>"

definition policy_info :: string where
  "policy_info =
     ''Flight Policy Info: Changes are allowed up to 24 hours before departure with a fee. ''
     @ ''Baggage allowance: 1 checked bag (23kg) and 1 cabin bag per passenger. ''
     @ ''For international flights, please arrive 2 hours before your scheduled departure.''"

definition perform_search_result :: "string \<Rightarrow> string" where
  "perform_search_result query =
     ''Searching the knowledge base for '' @ [CHR 0x22] @ query @ [CHR 0x22] @ ''...''
     @ [CHR 0x0A, CHR 0x0A] @ policy_info"

definition status_instructions :: "string \<Rightarrow> string" where
  "status_instructions query =
     [CHR 0x0A] @ replicate 16 (CHR 0x20)
     @ ''You are searching the knowledge base for '' @ [CHR 0x22] @ query @ [CHR 0x22]
     @ '' but it is taking a little while.'' @ [CHR 0x0A] @ replicate 16 (CHR 0x20)
     @ ''Update the user on your progress, but be very brief.'' @ [CHR 0x0A]
     @ replicate 12 (CHR 0x20)"

definition task_cancel :: "loop \<Rightarrow> loop" where
  "task_cancel st =
     (case status_pc st of
        S_sleeping \<Rightarrow> call_soon StepStatus (st\<lparr>status_pc := S_cancelling\<rparr>)
      | S_replying \<Rightarrow> call_soon StepStatus (st\<lparr>status_pc := S_cancelling\<rparr>)
      | S_created \<Rightarrow> st\<lparr>must_cancel := True\<rparr>
      | S_woken \<Rightarrow> st\<lparr>must_cancel := True\<rparr>
      | S_reply_done \<Rightarrow> st\<lparr>must_cancel := True\<rparr>
      | S_cancelling \<Rightarrow> st\<lparr>must_cancel := True\<rparr>
      | S_finished \<Rightarrow> st
      | S_cancelled \<Rightarrow> st
      | S_failed \<Rightarrow> st)"

definition step_main :: "rat \<Rightarrow> string \<Rightarrow> loop \<Rightarrow> loop" where
  "step_main d query st =
     (case main_pc st of
        M_start \<Rightarrow>
          (let st1 = call_soon StepStatus st in
           if d \<le> 0 then call_soon StepMain (st1\<lparr>main_pc := M_woken\<rparr>)
           else call_later d TimerMain (st1\<lparr>main_pc := M_sleeping\<rparr>))
      | M_woken \<Rightarrow>
          (let result = perform_search_result query;
               st1 = task_cancel st
           in st1\<lparr>main_pc := M_done, returned := Some result\<rparr>)
      | M_sleeping \<Rightarrow> st
      | M_done \<Rightarrow> st)"

definition step_status :: "rat \<Rightarrow> reply \<Rightarrow> string \<Rightarrow> loop \<Rightarrow> loop" where
  "step_status t rp query st =
     (case status_pc st of
        S_created \<Rightarrow>
          (if must_cancel st then st\<lparr>status_pc := S_cancelled\<rparr>
           else if t \<le> 0 then call_soon StepStatus (st\<lparr>status_pc := S_woken\<rparr>)
           else call_later t TimerStatus (st\<lparr>status_pc := S_sleeping\<rparr>))
      | S_woken \<Rightarrow>
          (if must_cancel st then st\<lparr>status_pc := S_cancelled\<rparr>
           else
             (let st1 = st\<lparr>spoken := spoken st @ [status_instructions query]\<rparr> in
              case rp of
                ReplyRaises \<Rightarrow> st1\<lparr>status_pc := S_failed\<rparr>
              | ReplyAfter r \<Rightarrow>
                  if r \<le> 0 then st1\<lparr>status_pc := S_finished\<rparr>
                  else call_later r TimerReply (st1\<lparr>status_pc := S_replying\<rparr>)))
      | S_reply_done \<Rightarrow>
          (if must_cancel st then st\<lparr>status_pc := S_cancelled\<rparr>
           else st\<lparr>status_pc := S_finished\<rparr>)
      | S_cancelling \<Rightarrow> st\<lparr>status_pc := S_cancelled\<rparr>
      | S_sleeping \<Rightarrow> st
      | S_replying \<Rightarrow> st
      | S_finished \<Rightarrow> st
      | S_cancelled \<Rightarrow> st
      | S_failed \<Rightarrow> st)"

definition run_handle :: "rat \<Rightarrow> rat \<Rightarrow> reply \<Rightarrow> string \<Rightarrow> loop \<Rightarrow> handle \<Rightarrow> loop" where
  "run_handle d t rp query st h =
     (case h of
        StepMain \<Rightarrow> step_main d query st
      | StepStatus \<Rightarrow> step_status t rp query st
      | TimerMain \<Rightarrow>
          (if main_pc st = M_sleeping then call_soon StepMain (st\<lparr>main_pc := M_woken\<rparr>) else st)
      | TimerStatus \<Rightarrow>
          (if status_pc st = S_sleeping then call_soon StepStatus (st\<lparr>status_pc := S_woken\<rparr>)
           else st)
      | TimerReply \<Rightarrow>
          (if status_pc st = S_replying
           then call_soon StepStatus (st\<lparr>status_pc := S_reply_done\<rparr>) else st))"

definition run_once :: "rat \<Rightarrow> rat \<Rightarrow> reply \<Rightarrow> string \<Rightarrow> loop \<Rightarrow> loop" where
  "run_once d t rp query st =
     (let now = (if ready st = [] then
                   (case scheduled st of [] \<Rightarrow> clock st | (w, h) # _ \<Rightarrow> max (clock st) w)
                 else clock st);
          due = takeWhile (\<lambda>(w, h). w \<le> now) (scheduled st);
          later = dropWhile (\<lambda>(w, h). w \<le> now) (scheduled st);
          todo = ready st @ map snd due
      in foldl (run_handle d t rp query) (st\<lparr>clock := now, ready := [], scheduled := later\<rparr>)
           todo)"

definition idle :: "loop \<Rightarrow> bool" where
  "idle st = (ready st = [] \<and> scheduled st = [])"

fun run_until_idle :: "nat \<Rightarrow> rat \<Rightarrow> rat \<Rightarrow> reply \<Rightarrow> string \<Rightarrow> loop \<Rightarrow> loop option" where
  "run_until_idle 0 d t rp query st = (if idle st then Some st else None)"
| "run_until_idle (Suc n) d t rp query st =
     (if idle st then Some st else run_until_idle n d t rp query (run_once d t rp query st))"

definition initial_loop :: loop where
  "initial_loop = \<lparr>clock = 0, ready = [StepMain], scheduled = [], main_pc = M_start,
     status_pc = S_created, must_cancel = False, spoken = [], returned = None\<rparr>"

definition run_search :: "rat \<Rightarrow> rat \<Rightarrow> reply \<Rightarrow> string \<Rightarrow> loop option" where
  "run_search d t rp query = run_until_idle 12 d t rp query initial_loop"

text \<open>The tool as the source has it: both delays are 2 seconds.\<close>

definition search_knowledge_base :: "reply \<Rightarrow> string \<Rightarrow> loop option" where
  "search_knowledge_base rp query = run_search 2 2 rp query"

section \<open>HotelBookingAgent.book\_hotel\<close>

text \<open>
  Lines 258-322 of agent.py. The \<^verbatim>\<open>RunContext\<close> argument is not used by the body and
  the \<^verbatim>\<open>print\<close> calls write to the console only; the model returns the dict and the
  generator after the five draws of the body.
\<close>

definition book_hotel ::
  "rng \<Rightarrow> string \<Rightarrow> string \<Rightarrow> string \<Rightarrow> int \<Rightarrow> string \<Rightarrow> pydict \<times> rng" where
  "book_hotel g city check_in_date check_out_date guests room_type =
     (let hotel_name = ''Grand '' @ str_title city @ '' Hotel'';
          (conf, g1) = randint 10000 99999 g;
          confirmation_number = ''HT'' @ str_int conf;
          base_price = (if str_lower room_type = ''standard'' then 150 else 250);
          (extra, g2) = randint 50 200 g1;
          price_per_night = base_price + extra;
          (nights, g3) = randint 1 7 g2;
          total_price = price_per_night * nights;
          (room_no, g4) = randint 1 20 g3;
          (room_letter, g5) = choice ''ABCD'' g4;
          room_number = str_int room_no @ [room_letter]
      in ([(''status'', PStr ''confirmed''),
           (''hotel_name'', PStr hotel_name),
           (''location'', PStr (str_upper city)),
           (''check_in_date'', PStr check_in_date),
           (''check_out_date'', PStr check_out_date),
           (''guests'', PInt guests),
           (''room_type'', PStr (str_title room_type)),
           (''room_number'', PStr room_number),
           (''nights'', PInt nights),
           (''price_per_night'', PStr (CHR ''$'' # str_int price_per_night)),
           (''total_price'', PStr (CHR ''$'' # str_int total_price)),
           (''confirmation_number'', PStr confirmation_number),
           (''message'', PStr (''Hotel '' @ hotel_name @ '' in '' @ city
              @ '' has been successfully booked for '' @ str_int guests @ '' guests!''))],
          g5))"

section \<open>HotelBookingAgent.extract\_flight\_context\<close>

text \<open>
  An entry of the chat history is \<open>ChatMessage role content\<close>, or is an entry
  without the attribute \<^verbatim>\<open>role\<close>, which line 214 skips. The content is text, as in
  section 3 of the specification, so \<^verbatim>\<open>str(item.content)\<close> is the content itself and
  the content is truthy when it is not empty.
\<close>

datatype chat_item = ChatMessage string string | OtherItem

definition date_words :: "string list" where
  "date_words = [''tomorrow'', ''today'', ''next week'', ''january'', ''february'', ''march'',
     ''april'', ''may'', ''june'', ''july'', ''august'', ''september'', ''october'',
     ''november'', ''december'']"

text \<open>Lines 223-227: the first word after the first \<^verbatim>\<open>"to "\<close>.\<close>

definition extract_destination :: "string \<Rightarrow> pydict \<Rightarrow> py_error + pydict" where
  "extract_destination content flight_details =
     (if str_contains ''to '' content then
        (let parts = str_split ''to '' content in
         if length parts > 1 then
           (case str_split_ws (parts ! 1) of
              [] \<Rightarrow> Inl IndexError
            | destination # _ \<Rightarrow>
                Inr (AList.update ''destination'' (PStr (str_title destination)) flight_details))
         else Inr flight_details)
      else Inr flight_details)"

text \<open>Lines 230-234: the first word of the list that occurs in the content.\<close>

definition extract_date :: "string \<Rightarrow> pydict \<Rightarrow> pydict" where
  "extract_date content flight_details =
     (if list_ex (\<lambda>word. str_contains word content) date_words then
        (case find (\<lambda>word. str_contains word content) date_words of
           Some word \<Rightarrow> AList.update ''date'' (PStr (str_title word)) flight_details
         | None \<Rightarrow> flight_details)
      else flight_details)"

text \<open>Lines 214-238: the body of the loop for one entry.\<close>

definition scan_item :: "pydict \<Rightarrow> chat_item \<Rightarrow> py_error + pydict" where
  "scan_item flight_details item =
     (case item of
        OtherItem \<Rightarrow> Inr flight_details
      | ChatMessage r c \<Rightarrow>
          (case (if r = ''user'' \<and> c \<noteq> [] then
                   (let content = str_lower c in
                    if str_contains ''flight'' content \<or> str_contains ''book'' content then
                      (case extract_destination content flight_details of
                         Inl e \<Rightarrow> Inl e
                       | Inr fd \<Rightarrow> Inr (extract_date content fd))
                    else Inr flight_details)
                 else Inr flight_details) of
             Inl e \<Rightarrow> Inl e
           | Inr fd \<Rightarrow>
               Inr (if r = ''assistant'' \<and> str_contains ''flight'' (str_lower c)
                        \<and> str_contains ''booked'' (str_lower c)
                    then AList.update ''confirmed'' (PBool True) fd else fd)))"

text \<open>Lines 213-238: the loop over the entries, in the order of the history.\<close>

fun scan_items :: "pydict \<Rightarrow> chat_item list \<Rightarrow> py_error + pydict" where
  "scan_items flight_details [] = Inr flight_details"
| "scan_items flight_details (item # rest) =
     (case scan_item flight_details item of
        Inl e \<Rightarrow> Inl e
      | Inr fd \<Rightarrow> scan_items fd rest)"

definition extract_flight_details :: "chat_item list \<Rightarrow> py_error + pydict" where
  "extract_flight_details items = scan_items [] items"

text \<open>
  Lines 202-255. The chat context is \<open>None\<close> when \<^verbatim>\<open>self.chat_ctx\<close> is falsy and
  \<open>Some items\<close> when it is an object with the attribute \<^verbatim>\<open>items\<close>; the branch of
  line 240 only prints. \<^verbatim>\<open>flight_details.get(k, d)\<close> is \<open>dict_get_str\<close>, and
  \<^verbatim>\<open>flight_details.get('confirmed')\<close> is truthy only for the value \<open>True\<close> that
  line 238 stores.
\<close>

definition dict_get_str :: "pydict \<Rightarrow> string \<Rightarrow> string \<Rightarrow> string" where
  "dict_get_str d k dflt =
     (case map_of d k of
        None \<Rightarrow> dflt
      | Some (PStr s) \<Rightarrow> s
      | Some (PInt i) \<Rightarrow> str_int i
      | Some (PBool b) \<Rightarrow> (if b then ''True'' else ''False''))"

definition context_text :: "pydict \<Rightarrow> string" where
  "context_text flight_details =
     [CHR 0x0A] @ ''IMPORTANT CONTEXT FROM FLIGHT BOOKING:'' @ [CHR 0x0A]
     @ ''- The user has already booked a flight'' @ [CHR 0x0A]
     @ ''- Destination: '' @ dict_get_str flight_details ''destination'' ''Not specified''
     @ [CHR 0x0A]
     @ ''- Travel Date: '' @ dict_get_str flight_details ''date'' ''Not specified''
     @ [CHR 0x0A]
     @ ''- Flight Status: ''
     @ (if map_of flight_details ''confirmed'' = Some (PBool True)
        then ''Confirmed'' else ''In progress'')
     @ [CHR 0x0A, CHR 0x0A]
     @ ''Based on this information, suggest a hotel in the same destination city ''
     @ ''and around the same travel dates.'' @ [CHR 0x0A]"

definition extract_flight_context :: "chat_item list option \<Rightarrow> py_error + string" where
  "extract_flight_context chat_ctx =
     (case chat_ctx of
        None \<Rightarrow> Inr []
      | Some items \<Rightarrow>
          (case extract_flight_details items of
             Inl e \<Rightarrow> Inl e
           | Inr flight_details \<Rightarrow>
               Inr (if flight_details \<noteq> [] then context_text flight_details else [])))"

section \<open>Agents, chat contexts and the handoff\<close>

text \<open>
  A \<^verbatim>\<open>ChatContext\<close> is an object on the heap: the store maps a reference to the
  entries of the context it names, in order, and \<open>next_ref\<close> is the next unused
  reference. An agent holds a reference, so two agents that hold the same reference see
  the same entries, also after one of them appends.
\<close>

type_synonym ref = nat

record store =
  contexts :: "ref \<Rightarrow> chat_item list option"
  next_ref :: ref

datatype agent_class = FlightBookingAgent | HotelBookingAgent

record agent =
  agent_class :: agent_class
  instructions :: string
  chat_ctx :: ref

definition add_message :: "ref \<Rightarrow> chat_item \<Rightarrow> store \<Rightarrow> store" where
  "add_message r item s =
     (case contexts s r of
        None \<Rightarrow> s
      | Some entries \<Rightarrow> s\<lparr>contexts := (contexts s)(r \<mapsto> entries @ [item])\<rparr>)"

definition history :: "store \<Rightarrow> agent \<Rightarrow> chat_item list option" where
  "history s a = contexts s (chat_ctx a)"

text \<open>
  Modelled from the spec: the constructor of the framework's base class \<^verbatim>\<open>Agent\<close>
  (imported from livekit.agents, not in src/). Section 3 of the specification gives an
  agent "a shared reference to ChatContext", "shared by reference across agents during
  handoff (no copy)"; so the constructor keeps the reference it is given, and for
  \<^verbatim>\<open>NOT_GIVEN\<close> (here \<open>None\<close>) it takes a new, empty context.
\<close>

definition Agent_init :: "agent_class \<Rightarrow> string \<Rightarrow> ref option \<Rightarrow> store \<Rightarrow> agent \<times> store" where
  "Agent_init c instr given s =
     (case given of
        Some r \<Rightarrow> (\<lparr>agent_class = c, instructions = instr, chat_ctx = r\<rparr>, s)
      | None \<Rightarrow>
          (\<lparr>agent_class = c, instructions = instr, chat_ctx = next_ref s\<rparr>,
           s\<lparr>contexts := (contexts s)(next_ref s \<mapsto> []), next_ref := Suc (next_ref s)\<rparr>))"

definition flight_instructions :: string where
  "flight_instructions =
     ''You are a helpful flight booking AI assistant. You can help users ''
     @ ''book flights and also transfer them to hotel booking if needed.''
     @ [CHR 0x0A]
     @ [CHR 0x0A]
     @ ''If a user asks a question about flights, airlines, airports, travel ''
     @ ''policies, or need general information, use the search_knowledge_base ''
     @ ''tool to search the knowledge base and provide the information.''
     @ [CHR 0x0A]
     @ [CHR 0x0A]
     @ ''When a user wants to book a flight, ask them for:''
     @ [CHR 0x0A]
     @ ''1. Departure city/airport (source)''
     @ [CHR 0x0A]
     @ ''2. Destination city/airport (destination) ''
     @ [CHR 0x0A]
     @ ''3. Travel date''
     @ [CHR 0x0A]
     @ [CHR 0x0A]
     @ ''Then use the book_flight tool to complete their booking. If they also ''
     @ ''need hotel booking, use the transfer_to_hotel_booking tool. Be ''
     @ ''friendly, professional, and helpful.''"

definition hotel_instructions :: string where
  "hotel_instructions =
     ''You are a helpful hotel booking AI assistant. You can help users book ''
     @ ''hotels for their travel.''
     @ [CHR 0x0A]
     @ ''        ''
     @ [CHR 0x0A]
     @ ''When a user wants to book a hotel, ask them for:''
     @ [CHR 0x0A]
     @ ''1. City/location where they need the hotel''
     @ [CHR 0x0A]
     @ ''2. Check-in date''
     @ [CHR 0x0A]
     @ ''3. Check-out date''
     @ [CHR 0x0A]
     @ ''4. Number of guests''
     @ [CHR 0x0A]
     @ ''5. Room preferences (optional)''
     @ [CHR 0x0A]
     @ [CHR 0x0A]
     @ ''Then use the book_hotel tool to complete their booking. Be friendly, ''
     @ ''professional, and helpful.''"

text \<open>
  Lines 19-30 and 189-200. The argument is \<open>None\<close> for Python's \<^verbatim>\<open>None\<close> and
  \<open>Some r\<close> for a \<^verbatim>\<open>ChatContext\<close> object, which is truthy as every object is whose
  class defines no truth value of its own; so \<^verbatim>\<open>chat_ctx if chat_ctx else NOT_GIVEN\<close>
  hands an object on and turns \<^verbatim>\<open>None\<close> into \<^verbatim>\<open>NOT_GIVEN\<close>.
\<close>

definition FlightBookingAgent_init :: "ref option \<Rightarrow> store \<Rightarrow> agent \<times> store" where
  "FlightBookingAgent_init arg s =
     Agent_init FlightBookingAgent flight_instructions
       (case arg of Some r \<Rightarrow> Some r | None \<Rightarrow> None) s"

definition HotelBookingAgent_init :: "ref option \<Rightarrow> store \<Rightarrow> agent \<times> store" where
  "HotelBookingAgent_init arg s =
     Agent_init HotelBookingAgent hotel_instructions
       (case arg of Some r \<Rightarrow> Some r | None \<Rightarrow> None) s"

text \<open>Lines 175-178: the handoff signal is a new hotel agent built on \<^verbatim>\<open>self.chat_ctx\<close>.\<close>

definition transfer_to_hotel_booking :: "agent \<Rightarrow> store \<Rightarrow> agent \<times> store" where
  "transfer_to_hotel_booking self s = HotelBookingAgent_init (Some (chat_ctx self)) s"

section \<open>Properties of the random module\<close>


lemma randint_range: "a \<le> b \<Longrightarrow> a \<le> fst (randint a b g) \<and> fst (randint a b g) \<le> b"
proof -
  assume ab: "a \<le> b"
  have pos: "0 < nat (b - a + 1)" using ab by simp
  have "g 0 mod nat (b - a + 1) < nat (b - a + 1)"
    using pos by (rule mod_less_divisor)
  then have "int (g 0 mod nat (b - a + 1)) < b - a + 1" using ab by linarith
  then show ?thesis by (simp add: randint_def)
qed

lemma snd_randint: "snd (randint a b g) = advance g"
  by (simp add: randint_def)

lemma snd_choice: "snd (choice xs g) = advance g"
  by (simp add: choice_def)

section \<open>Properties of book\_flight\<close>

lemma days_in_month_bounds: "28 \<le> days_in_month y m \<and> days_in_month y m \<le> 31"
  by (simp add: days_in_month_def)

lemma next_date_valid:
  assumes "valid_date v" and "v \<noteq> (9999, 12, 31)"
  shows "valid_date (next_date v)"
proof -
  obtain y m d where v: "v = (y, m, d)" by (cases v)
  have b: "28 \<le> days_in_month y (m + 1)" "28 \<le> days_in_month (y + 1) 1"
    using days_in_month_bounds by blast+
  have dec: "days_in_month y 12 = 31" by (simp add: days_in_month_def)
  show ?thesis
    using assms b dec unfolding v valid_date_def next_date_def
    by (auto split: if_splits)
qed

lemma next_date_not_last:
  assumes "valid_date v" and "next_date v = (9999, 12, 31)"
  shows "v = (9999, 12, 30)"
proof -
  obtain y m d where v: "v = (y, m, d)" by (cases v)
  show ?thesis
    using assms unfolding v valid_date_def next_date_def
    by (auto split: if_splits)
qed

lemma valid_date_year: "valid_date v \<Longrightarrow> fst v \<le> 9999"
  by (cases v) (simp add: valid_date_def)

lemma add_days_Suc: "add_days (Suc n) v = next_date (add_days n v)"
  by (simp add: add_days_def)

lemma add_days_0: "add_days 0 v = v"
  by (simp add: add_days_def)

lemma plus_timedelta_Inr:
  assumes "fst (add_days (days + (hour t + hours) div 24) (ymd_of t)) \<le> 9999"
  shows "\<exists>r. plus_timedelta t days hours = Inr r
           \<and> ymd_of r = add_days (days + (hour t + hours) div 24) (ymd_of t)
           \<and> hour r = (hour t + hours) mod 24 \<and> minute r = minute t"
  using assms
  by (cases "add_days (days + (hour t + hours) div 24) (ymd_of t)")
     (auto simp: plus_timedelta_def Let_def ymd_of_def)


lemma flight_times_Inr:
  assumes dd: "departure_date_of (now\<lparr>hour := 0, minute := 0, second := 0, microsecond := 0\<rparr>)
                 g date = Inr (dd, g1)"
    and v: "valid_date (ymd_of dd)" and nl: "ymd_of dd \<noteq> (9999, 12, 31)"
  shows "\<exists>dep arr g2. flight_times now g date = Inr (dep, arr, g2) \<and> ymd_of dep = ymd_of dd"
proof -
  define H where "H = fst (randint 6 22 g1)"
  define M where "M = fst (choice [0, 15, 30, 45 :: nat] (advance g1))"
  define D where "D = fst (randint 2 8 (advance (advance g1)))"
  define dep where "dep = dd\<lparr>hour := nat H, minute := M, second := 0, microsecond := 0\<rparr>"
  have H: "6 \<le> H \<and> H \<le> 22" unfolding H_def by (rule randint_range) simp
  have D: "2 \<le> D \<and> D \<le> 8" unfolding D_def by (rule randint_range) simp
  have yd: "ymd_of dep = ymd_of dd" by (simp add: dep_def ymd_of_def)
  have hd: "hour dep = nat H" by (simp add: dep_def)
  have k: "(hour dep + nat D) div 24 = 0 \<or> (hour dep + nat D) div 24 = 1"
    using H D hd by (simp add: div_nat_eqI) linarith
  have "fst (add_days (0 + (hour dep + nat D) div 24) (ymd_of dep)) \<le> 9999"
  proof -
    from k show ?thesis
    proof
      assume "(hour dep + nat D) div 24 = 0"
      then show ?thesis using v yd valid_date_year [of "ymd_of dd"] by (simp add: add_days_0)
    next
      assume "(hour dep + nat D) div 24 = 1"
      then show ?thesis
        using next_date_valid [OF v nl] yd valid_date_year [of "next_date (ymd_of dd)"]
        by (simp add: add_days_Suc add_days_0)
    qed
  qed
  from plus_timedelta_Inr [OF this] obtain arr where
    arr: "plus_timedelta dep 0 (nat D) = Inr arr" by blast
  have "flight_times now g date = Inr (dep, arr, advance (advance (advance g1)))"
    using dd arr
    by (simp add: flight_times_def Let_def split_def H_def M_def D_def dep_def
        snd_randint snd_choice)
  with yd show ?thesis by blast
qed

lemma book_flight_Inr:
  assumes "flight_times now (advance g) date = Inr (dep, arr, g1)"
  shows "\<exists>d g2. book_flight now g source destination date = Inr (d, g2)
           \<and> map_of d ''status'' = Some (PStr ''confirmed'')
           \<and> map_of d ''date'' = Some (PStr date)
           \<and> map_of d ''departure'' = Some (PStr (strftime_long dep))
           \<and> map_of d ''arrival'' = Some (PStr (strftime_long arr))"
  using assms by (simp add: book_flight_def Let_def split_def snd_randint)



lemma ymd_of_today:
  "ymd_of (now\<lparr>hour := 0, minute := 0, second := 0, microsecond := 0\<rparr>) = ymd_of now"
  by (simp add: ymd_of_def)

text \<open>
  Claim C4, as amended. Let the date string contain "tomorrow" in any letter case and let
  the clock show a valid date and time no later than 9999-12-29. Then \<open>book_flight\<close>
  returns a dict, for every source, destination and generator state, and the departure
  it formats has the calendar date that follows the clock's date. That date is
  \<open>next_date (ymd_of now)\<close>: the hour, minute, second and microsecond of the clock
  do not occur in it. (On the last two days of year 9999 the additions of lines 102 and
  145 can leave the range of \<^verbatim>\<open>datetime\<close>, see \<open>book_flight_tomorrow_overflow\<close>.)
\<close>

theorem book_flight_tomorrow:
  assumes tm: "str_contains ''tomorrow'' (str_lower date)"
    and valid: "valid_datetime now"
    and early: "\<not> (year now = 9999 \<and> month now = 12 \<and> 30 \<le> day now)"
  shows "\<exists>dep arr g1 d g2.
           flight_times now (advance g) date = Inr (dep, arr, g1)
           \<and> ymd_of dep = next_date (ymd_of now)
           \<and> book_flight now g source destination date = Inr (d, g2)
           \<and> map_of d ''departure'' = Some (PStr (strftime_long dep))"
proof -
  let ?today = "now\<lparr>hour := 0, minute := 0, second := 0, microsecond := 0\<rparr>"
  have v: "valid_date (ymd_of now)" using valid by (simp add: valid_datetime_def)
  have n1: "ymd_of now \<noteq> (9999, 12, 31)" and n2: "ymd_of now \<noteq> (9999, 12, 30)"
    using early by (auto simp: ymd_of_def)
  have v1: "valid_date (next_date (ymd_of now))" by (rule next_date_valid [OF v n1])
  have l1: "next_date (ymd_of now) \<noteq> (9999, 12, 31)"
    using next_date_not_last [OF v] n2 by blast
  have "fst (add_days (1 + (hour ?today + 0) div 24) (ymd_of ?today)) \<le> 9999"
    using valid_date_year [OF v1] by (simp add: ymd_of_today add_days_Suc add_days_0)
  from plus_timedelta_Inr [OF this] obtain r where
    r: "plus_timedelta ?today 1 0 = Inr r" "ymd_of r = next_date (ymd_of now)"
    by (auto simp: ymd_of_today add_days_Suc add_days_0)
  have dd: "departure_date_of ?today (advance g) date = Inr (r, advance g)"
    using tm r(1) by (simp add: departure_date_of_def)
  from flight_times_Inr [OF dd] v1 l1 r(2) obtain dep arr g1 where
    ft: "flight_times now (advance g) date = Inr (dep, arr, g1)" "ymd_of dep = ymd_of r"
    by auto
  from book_flight_Inr [OF ft(1), of source destination] ft r(2) show ?thesis by auto
qed

lemma last_day_today:
  "ymd_of (clock_last_day\<lparr>hour := 0, minute := 0, second := 0, microsecond := 0\<rparr>)
     = (9999, 12, 31)"
  by (simp add: ymd_of_def clock_last_day_def)

lemma add_days_past_last: "0 < n \<Longrightarrow> 9999 < fst (add_days n (9999, 12, 31))"
proof (induction n)
  case 0
  then show ?case by simp
next
  case (Suc n)
  show ?case
  proof (cases "n = 0")
    case True
    then show ?thesis
      by (simp add: add_days_def next_date_def days_in_month_def)
  next
    case False
    with Suc have "9999 < fst (add_days n (9999, 12, 31))" by simp
    then show ?thesis
      by (cases "add_days n (9999, 12, 31)")
         (auto simp: add_days_Suc next_date_def split: if_splits)
  qed
qed

lemma last_day_overflow:
  "0 < n \<Longrightarrow>
   plus_timedelta (clock_last_day\<lparr>hour := 0, minute := 0, second := 0, microsecond := 0\<rparr>)
     n 0 = Inl OverflowError"
  using add_days_past_last [of n]
  by (cases "add_days n (9999, 12, 31)")
     (auto simp: plus_timedelta_def last_day_today Let_def)

lemma tomorrow_kw: "str_contains ''tomorrow'' (str_lower ''tomorrow'')"
  by code_simp

text \<open>
  Claim C4 as stated fails at the clock reading 9999-12-31 12:34:56: line 102 raises
  \<^verbatim>\<open>OverflowError\<close> and no dict is returned.
\<close>

theorem book_flight_tomorrow_overflow:
  "book_flight clock_last_day sample_rng ''NYC'' ''LAX'' ''tomorrow'' = Inl OverflowError"
  using tomorrow_kw last_day_overflow [of 1]
  by (simp add: book_flight_def flight_times_def departure_date_of_def split_def)

lemma tomorrow_morning_kw: "str_contains ''tomorrow'' (str_lower ''Tomorrow morning'')"
  by code_simp

lemma clock_2025_valid: "valid_datetime clock_2025"
  by (simp add: valid_datetime_def valid_date_def ymd_of_def clock_2025_def days_in_month_def)

theorem book_flight_tomorrow_witness:
  "str_contains ''tomorrow'' (str_lower ''Tomorrow morning'')
   \<and> valid_datetime clock_2025
   \<and> (\<exists>dep arr g1 d g2.
         flight_times clock_2025 (advance sample_rng) ''Tomorrow morning'' = Inr (dep, arr, g1)
         \<and> ymd_of dep = (2025, 7, 1)
         \<and> book_flight clock_2025 sample_rng ''NYC'' ''LAX'' ''Tomorrow morning'' = Inr (d, g2)
         \<and> map_of d ''departure'' = Some (PStr (strftime_long dep)))"
proof -
  have e: "\<not> (year clock_2025 = 9999 \<and> month clock_2025 = 12 \<and> 30 \<le> day clock_2025)"
    by (simp add: clock_2025_def)
  have n: "next_date (ymd_of clock_2025) = (2025, 7, 1)"
    by (simp add: next_date_def ymd_of_def clock_2025_def days_in_month_def)
  show ?thesis
    using book_flight_tomorrow [OF tomorrow_morning_kw clock_2025_valid e,
        of sample_rng "''NYC''" "''LAX''"]
      tomorrow_morning_kw clock_2025_valid
    by (simp add: n)
qed

lemma add_days_bound:
  assumes v: "valid_date v" and e: "\<not> (fst v = 9999 \<and> fst (snd v) = 12)"
  shows "n \<le> 30 \<Longrightarrow> valid_date (add_days n v)
           \<and> (fst (add_days n v) < 9999 \<or> fst (snd (add_days n v)) \<le> 11
                \<or> snd (snd (add_days n v)) \<le> n)"
proof (induction n)
  case 0
  then show ?case using v e valid_date_year [OF v]
    by (cases v) (auto simp: add_days_0 valid_date_def)
next
  case (Suc n)
  obtain y m d where w: "add_days n v = (y, m, d)" by (cases "add_days n v")
  from Suc have ih: "valid_date (y, m, d)" "y < 9999 \<or> m \<le> 11 \<or> d \<le> n" and n: "n < 30"
    by (auto simp: w)
  have nl: "(y, m, d) \<noteq> (9999, 12, 31)" using ih(2) n by auto
  have v': "valid_date (next_date (y, m, d))" by (rule next_date_valid [OF ih(1) nl])
  have dec: "days_in_month y 12 = 31" by (simp add: days_in_month_def)
  have "fst (next_date (y, m, d)) < 9999 \<or> fst (snd (next_date (y, m, d))) \<le> 11
          \<or> snd (snd (next_date (y, m, d))) \<le> Suc n"
    using ih n dec unfolding next_date_def valid_date_def
    by (auto split: if_splits)
  with v' show ?case by (simp add: add_days_Suc w)
qed

text \<open>
  Claim C5, as amended. Let the date string contain none of the three keywords and let
  none of the seven formats parse its cleaned form, and let the clock show a valid date
  and time before December 9999. Then \<open>book_flight\<close> raises nothing: it returns a
  dict whose status is "confirmed" and whose departure is \<open>n\<close> days after the clock's
  date, for an \<open>n\<close> of \<open>1..30\<close>. (In December 9999 the fallback date or the arrival
  time can leave the range of \<^verbatim>\<open>datetime\<close>, see \<open>book_flight_unparseable_overflow\<close>.)
\<close>

theorem book_flight_unparseable:
  assumes k1: "\<not> str_contains ''tomorrow'' (str_lower date)"
    and k2: "\<not> str_contains ''today'' (str_lower date)"
    and k3: "\<not> str_contains ''next week'' (str_lower date)"
    and nofmt: "\<forall>fmt\<in>set formats. strptime (date_clean_of date) fmt = Inl ValueError"
    and valid: "valid_datetime now"
    and early: "\<not> (year now = 9999 \<and> month now = 12)"
  shows "\<exists>n dep arr g1 d g2.
           1 \<le> n \<and> n \<le> 30
           \<and> flight_times now (advance g) date = Inr (dep, arr, g1)
           \<and> ymd_of dep = add_days n (ymd_of now)
           \<and> book_flight now g source destination date = Inr (d, g2)
           \<and> map_of d ''status'' = Some (PStr ''confirmed'')
           \<and> map_of d ''departure'' = Some (PStr (strftime_long dep))"
proof -
  let ?today = "now\<lparr>hour := 0, minute := 0, second := 0, microsecond := 0\<rparr>"
  define N where "N = fst (randint 1 30 (advance g))"
  have N: "1 \<le> N \<and> N \<le> 30" unfolding N_def by (rule randint_range) simp
  have v: "valid_date (ymd_of now)" using valid by (simp add: valid_datetime_def)
  have e: "\<not> (fst (ymd_of now) = 9999 \<and> fst (snd (ymd_of now)) = 12)"
    using early by (simp add: ymd_of_def)
  have n30: "nat N \<le> 30" using N by linarith
  from add_days_bound [OF v e n30] have
    b: "valid_date (add_days (nat N) (ymd_of now))"
      "fst (add_days (nat N) (ymd_of now)) < 9999
       \<or> fst (snd (add_days (nat N) (ymd_of now))) \<le> 11
       \<or> snd (snd (add_days (nat N) (ymd_of now))) \<le> nat N"
    by blast+
  have nl: "add_days (nat N) (ymd_of now) \<noteq> (9999, 12, 31)"
    using b(2) n30 by (cases "add_days (nat N) (ymd_of now)") auto
  have "fst (add_days (nat N + (hour ?today + 0) div 24) (ymd_of ?today)) \<le> 9999"
    using valid_date_year [OF b(1)] by (simp add: ymd_of_today)
  from plus_timedelta_Inr [OF this] obtain r where
    r: "plus_timedelta ?today (nat N) 0 = Inr r" "ymd_of r = add_days (nat N) (ymd_of now)"
    by (auto simp: ymd_of_today)
  have tf: "try_formats (date_clean_of date) formats = Inr None"
    using nofmt by (simp add: formats_def)
  have fb: "fallback_date ?today (advance g) = Inr (r, advance (advance g))"
    using r(1) by (simp add: fallback_date_def N_def split_def snd_randint)
  have dd: "departure_date_of ?today (advance g) date = Inr (r, advance (advance g))"
    using k1 k2 k3 tf fb by (simp add: departure_date_of_def parse_specific_date_def)
  from flight_times_Inr [OF dd] b(1) nl r(2) obtain dep arr g1 where
    ft: "flight_times now (advance g) date = Inr (dep, arr, g1)" "ymd_of dep = ymd_of r"
    by auto
  from book_flight_Inr [OF ft(1), of source destination] ft r(2) N n30
  show ?thesis by (intro exI [of _ "nat N"]) auto
qed

lemma banana_formats:
  "\<forall>fmt\<in>set formats. strptime (date_clean_of ''banana'') fmt = Inl ValueError"
  by code_simp

lemma banana_keywords:
  "\<not> str_contains ''tomorrow'' (str_lower ''banana'')"
  "\<not> str_contains ''today'' (str_lower ''banana'')"
  "\<not> str_contains ''next week'' (str_lower ''banana'')"
  by code_simp+

lemma fallback_last_day:
  "fallback_date (clock_last_day\<lparr>hour := 0, minute := 0, second := 0, microsecond := 0\<rparr>) g
     = Inl OverflowError"
proof -
  have "1 \<le> fst (randint 1 30 g) \<and> fst (randint 1 30 g) \<le> 30"
    by (rule randint_range) simp
  then have "0 < nat (fst (randint 1 30 g))" by simp
  from last_day_overflow [OF this] show ?thesis
    by (simp add: fallback_date_def split_def)
qed

text \<open>
  Claim C5 as stated fails for "banana" at the clock reading 9999-12-31 12:34:56: the
  fallback of line 134 raises \<^verbatim>\<open>OverflowError\<close>, line 136 catches it, and the
  fallback of line 138 raises it again, outside the \<^verbatim>\<open>try\<close>.
\<close>

theorem book_flight_unparseable_overflow:
  "\<not> str_contains ''tomorrow'' (str_lower ''banana'')
   \<and> \<not> str_contains ''today'' (str_lower ''banana'')
   \<and> \<not> str_contains ''next week'' (str_lower ''banana'')
   \<and> try_formats (date_clean_of ''banana'') formats = Inr None
   \<and> book_flight clock_last_day sample_rng ''NYC'' ''LAX'' ''banana'' = Inl OverflowError"
proof -
  have tf: "try_formats (date_clean_of ''banana'') formats = Inr None"
    using banana_formats by (simp add: formats_def)
  have "book_flight clock_last_day sample_rng ''NYC'' ''LAX'' ''banana'' = Inl OverflowError"
    using banana_keywords tf
    by (simp add: book_flight_def flight_times_def departure_date_of_def
        parse_specific_date_def fallback_last_day split_def)
  with banana_keywords tf show ?thesis by blast
qed

theorem book_flight_unparseable_witness:
  "valid_datetime clock_2025
   \<and> (\<exists>n dep arr g1 d g2.
         1 \<le> n \<and> n \<le> 30
         \<and> flight_times clock_2025 (advance sample_rng) ''banana'' = Inr (dep, arr, g1)
         \<and> ymd_of dep = add_days n (ymd_of clock_2025)
         \<and> book_flight clock_2025 sample_rng ''NYC'' ''LAX'' ''banana'' = Inr (d, g2)
         \<and> map_of d ''status'' = Some (PStr ''confirmed'')
         \<and> map_of d ''departure'' = Some (PStr (strftime_long dep)))"
proof -
  have e: "\<not> (year clock_2025 = 9999 \<and> month clock_2025 = 12)"
    by (simp add: clock_2025_def)
  show ?thesis
    using book_flight_unparseable [OF banana_keywords banana_formats clock_2025_valid e,
        of sample_rng "''NYC''" "''LAX''"] clock_2025_valid
    by simp
qed





section \<open>Properties of search\_knowledge\_base\<close>

lemmas loop_defs = run_search_def initial_loop_def idle_def run_once_def run_handle_def
  step_main_def step_status_def task_cancel_def call_soon_def call_later_def Let_def

lemma quick_both_yield:
  assumes "d \<le> 0" "t \<le> 0"
  shows "\<exists>st. run_search d t rp query = Some st \<and> main_pc st = M_done
    \<and> returned st = Some (perform_search_result query) \<and> spoken st = []
    \<and> status_pc st = S_cancelled"
  using assms by (simp add: loop_defs eval_nat_numeral)

lemma quick_main_yield:
  assumes "d \<le> 0" "0 < t"
  shows "\<exists>st. run_search d t rp query = Some st \<and> main_pc st = M_done
    \<and> returned st = Some (perform_search_result query) \<and> spoken st = []
    \<and> status_pc st = S_cancelled"
  using assms by (simp add: loop_defs eval_nat_numeral)

lemma quick_before:
  assumes "0 < d" "d < t"
  shows "\<exists>st. run_search d t rp query = Some st \<and> main_pc st = M_done
    \<and> returned st = Some (perform_search_result query) \<and> spoken st = []
    \<and> status_pc st = S_cancelled"
  using assms by (simp add: loop_defs eval_nat_numeral)

lemma quick_tie:
  assumes "0 < d" "d = t"
  shows "\<exists>st. run_search d t rp query = Some st \<and> main_pc st = M_done
    \<and> returned st = Some (perform_search_result query) \<and> spoken st = []
    \<and> status_pc st = S_cancelled"
  using assms by (simp add: loop_defs eval_nat_numeral)


lemma slow_raises:
  assumes "0 < d" "t < d"
  shows "\<exists>st. run_search d t ReplyRaises query = Some st \<and> main_pc st = M_done
    \<and> returned st = Some (perform_search_result query)
    \<and> spoken st = [status_instructions query]"
proof (cases "t \<le> 0")
  case True
  with assms show ?thesis by (simp add: loop_defs eval_nat_numeral)
next
  case False
  with assms show ?thesis by (simp add: loop_defs eval_nat_numeral)
qed

lemma slow_reply:
  assumes "0 < d" "t < d"
  shows "\<exists>st. run_search d t (ReplyAfter r) query = Some st \<and> main_pc st = M_done
    \<and> returned st = Some (perform_search_result query)
    \<and> spoken st = [status_instructions query]"
proof (cases "t \<le> 0")
  case t0: True
  show ?thesis
  proof (cases "r \<le> 0")
    case True
    with assms t0 show ?thesis by (simp add: loop_defs eval_nat_numeral)
  next
    case r: False
    consider "r < d" | "r = d" | "d < r" by linarith
    then show ?thesis
    proof cases
      case 1
      with assms t0 r show ?thesis by (simp add: loop_defs eval_nat_numeral)
    next
      case 2
      with assms t0 r show ?thesis by (simp add: loop_defs eval_nat_numeral)
    next
      case 3
      with assms t0 r show ?thesis by (simp add: loop_defs eval_nat_numeral)
    qed
  qed
next
  case t0: False
  show ?thesis
  proof (cases "r \<le> 0")
    case True
    with assms t0 show ?thesis by (simp add: loop_defs eval_nat_numeral)
  next
    case r: False
    consider "t + r < d" | "t + r = d" | "d < t + r" by linarith
    then show ?thesis
    proof cases
      case 1
      with assms t0 r show ?thesis by (simp add: loop_defs eval_nat_numeral)
    next
      case 2
      with assms t0 r show ?thesis by (simp add: loop_defs eval_nat_numeral)
    next
      case 3
      with assms t0 r show ?thesis by (simp add: loop_defs eval_nat_numeral)
    qed
  qed
qed


lemma str_contains_prefix: "prefix sub s \<Longrightarrow> str_contains sub s"
  by (cases s) auto

lemma str_contains_append: "str_contains sub (pre @ sub @ post)"
  by (induction pre) (auto simp: str_contains_prefix)

text \<open>
  Claim C2. In the loop model, whenever the search takes less time than the notifier's
  delay (\<open>d < t\<close>), the run ends with nothing spoken: \<^verbatim>\<open>generate_reply\<close> is never
  called, and the status task ends cancelled, by the \<^verbatim>\<open>cancel()\<close> of line 76 that the
  tool call runs in the same step in which it receives the search result.
\<close>

theorem notifier_silent_when_search_is_faster:
  assumes "d < t"
  shows "\<exists>st. run_search d t rp query = Some st \<and> main_pc st = M_done
           \<and> spoken st = [] \<and> status_pc st = S_cancelled"
proof (cases "d \<le> 0")
  case d0: True
  show ?thesis
  proof (cases "t \<le> 0")
    case True
    from quick_both_yield [OF d0 True] show ?thesis by blast
  next
    case False
    then have "0 < t" by simp
    from quick_main_yield [OF d0 this] show ?thesis by blast
  qed
next
  case False
  then have "0 < d" by simp
  from quick_before [OF this assms] show ?thesis by blast
qed

theorem notifier_silent_when_search_is_faster_witness:
  "(1::rat) < 2
   \<and> (\<exists>st. run_search 1 2 (ReplyAfter 3) ''baggage allowance'' = Some st
         \<and> main_pc st = M_done \<and> spoken st = [] \<and> status_pc st = S_cancelled)"
  using notifier_silent_when_search_is_faster [of 1 2 "ReplyAfter 3" "''baggage allowance''"]
  by simp

text \<open>
  Claim C1. In the loop model the tool call always finishes, and what it returns is the
  result of \<^verbatim>\<open>_perform_search(query)\<close>: the fixed policy text after a line that quotes
  the query. This holds for every search time \<open>d\<close>, every notifier delay \<open>t\<close> and
  every behaviour of \<^verbatim>\<open>generate_reply\<close>, so both when the status update was spoken
  (\<open>slow_reply\<close>, \<open>slow_raises\<close>) and when it was not, and in particular for the two
  delays of the source.
\<close>

theorem search_returns_perform_search_result:
  "(\<exists>st. run_search d t rp query = Some st \<and> main_pc st = M_done
        \<and> returned st = Some (perform_search_result query))
   \<and> (\<exists>st. search_knowledge_base rp query = Some st \<and> main_pc st = M_done
        \<and> returned st = Some (perform_search_result query))
   \<and> str_contains query (perform_search_result query)
   \<and> str_contains policy_info (perform_search_result query)"
proof -
  have run: "\<exists>st. run_search d t rp query = Some st \<and> main_pc st = M_done
        \<and> returned st = Some (perform_search_result query)" for d t
  proof (cases "d \<le> 0")
    case d0: True
    show ?thesis
    proof (cases "t \<le> 0")
      case True
      from quick_both_yield [OF d0 True] show ?thesis by blast
    next
      case False
      then have "0 < t" by simp
      from quick_main_yield [OF d0 this] show ?thesis by blast
    qed
  next
    case False
    then have d: "0 < d" by simp
    consider "d < t" | "d = t" | "t < d" by linarith
    then show ?thesis
    proof cases
      case 1
      from quick_before [OF d 1] show ?thesis by blast
    next
      case 2
      from quick_tie [OF d 2] show ?thesis by blast
    next
      case 3
      show ?thesis
      proof (cases rp)
        case (ReplyAfter r)
        with slow_reply [OF d 3] show ?thesis by blast
      next
        case ReplyRaises
        with slow_raises [OF d 3] show ?thesis by blast
      qed
    qed
  qed
  have c1: "str_contains query (perform_search_result query)"
    unfolding perform_search_result_def
    using str_contains_append
      [of query "''Searching the knowledge base for '' @ [CHR 0x22]"
        "[CHR 0x22] @ ''...'' @ [CHR 0x0A, CHR 0x0A] @ policy_info"]
    by simp
  have c2: "str_contains policy_info (perform_search_result query)"
    unfolding perform_search_result_def
    using str_contains_append
      [of policy_info "''Searching the knowledge base for '' @ [CHR 0x22] @ query
          @ [CHR 0x22] @ ''...'' @ [CHR 0x0A, CHR 0x0A]" "[]"]
    by simp
  from run [of d t] run [of 2 2] c1 c2 show ?thesis
    by (simp add: search_knowledge_base_def)
qed

lemma source_delays_never_speak:
  "\<exists>st. search_knowledge_base rp query = Some st \<and> spoken st = []"
  using quick_tie [of 2 2 rp query] by (auto simp: search_knowledge_base_def)

lemma slower_search_is_announced:
  "\<exists>st. run_search 2 1 (ReplyAfter 3) query = Some st
     \<and> spoken st = [status_instructions query]
     \<and> returned st = Some (perform_search_result query)"
  using slow_reply [of 2 1 3 query] by auto

section \<open>Properties of the handoff\<close>

text \<open>
  Claim C3. \<open>transfer_to_hotel_booking\<close> builds the hotel agent on the very reference
  the flight agent holds and leaves the store as it is: no context is allocated or
  copied. So the history the hotel agent sees is the history the flight agent sees at
  the moment of the handoff, entry for entry, and an entry appended afterwards through
  either agent is seen by both.
\<close>

theorem handoff_shares_chat_context:
  "chat_ctx (fst (transfer_to_hotel_booking a s)) = chat_ctx a
   \<and> snd (transfer_to_hotel_booking a s) = s
   \<and> agent_class (fst (transfer_to_hotel_booking a s)) = HotelBookingAgent
   \<and> history (snd (transfer_to_hotel_booking a s)) (fst (transfer_to_hotel_booking a s))
       = history s a
   \<and> history (add_message (chat_ctx a) item (snd (transfer_to_hotel_booking a s)))
         (fst (transfer_to_hotel_booking a s))
       = history (add_message (chat_ctx a) item s) a"
  by (simp add: transfer_to_hotel_booking_def HotelBookingAgent_init_def Agent_init_def
      history_def)

section \<open>Properties of extract\_flight\_context\<close>















lemma paris_context_text:
  "extract_flight_context (Some [ChatMessage ''user'' ''book a flight to Paris tomorrow'']) =
     Inr ([CHR 0x0A] @ ''IMPORTANT CONTEXT FROM FLIGHT BOOKING:'' @ [CHR 0x0A]
       @ ''- The user has already booked a flight'' @ [CHR 0x0A]
       @ ''- Destination: Paris'' @ [CHR 0x0A]
       @ ''- Travel Date: Tomorrow'' @ [CHR 0x0A]
       @ ''- Flight Status: In progress'' @ [CHR 0x0A, CHR 0x0A]
       @ ''Based on this information, suggest a hotel in the same destination city ''
       @ ''and around the same travel dates.'' @ [CHR 0x0A])"
  by code_simp



lemma extract_raises:
  "extract_flight_details [ChatMessage ''user'' ''book a flight to ''] = Inl IndexError"
  by code_simp


section \<open>Properties of book\_hotel\<close>

text \<open>
  Claim C10. For every generator state and every argument list, the dict returned by
  \<open>book_hotel\<close> holds a number of nights \<open>n\<close> of \<open>1..7\<close>, a price per night
  \<open>$p\<close> and a total price that is the decimal rendering of \<open>p * n\<close>. The
  number of nights is the third draw of the call and the price per night is the base
  price plus the second draw: neither reads the check-in or the check-out date, so any
  other pair of dates gives the same three entries.
\<close>

theorem book_hotel_total_price:
  "\<exists>p n. 1 \<le> n \<and> n \<le> 7
     \<and> n = fst (randint 1 7 (advance (advance g)))
     \<and> p = (if str_lower room_type = ''standard'' then 150 else 250)
           + fst (randint 50 200 (advance g))
     \<and> (\<forall>ci co. map_of (fst (book_hotel g city ci co guests room_type)) ''nights''
                  = Some (PInt n)
              \<and> map_of (fst (book_hotel g city ci co guests room_type)) ''price_per_night''
                  = Some (PStr (CHR ''$'' # str_int p))
              \<and> map_of (fst (book_hotel g city ci co guests room_type)) ''total_price''
                  = Some (PStr (CHR ''$'' # str_int (p * n))))"
proof -
  have r: "1 \<le> fst (randint 1 7 (advance (advance g)))
         \<and> fst (randint 1 7 (advance (advance g))) \<le> 7"
    by (rule randint_range) simp
  show ?thesis
    using r by (simp add: book_hotel_def Let_def randint_def choice_def split_def)
qed

end
